theory Spec2Isabelle
  imports Complex_Main "HOL-Library.AList"
begin

section \<open>Common Python notions\<close>

text \<open>
  The repository is Python. Its \<open>float\<close> values are modelled as \<open>real\<close>; infinities
  and NaN are left out. Where a property turns on the value of a computed float at a
  threshold (the profit percentage of the DCA strategy), each float operation is the real
  operation followed by a rounding, and the rounding is a parameter: what is proved holds
  for every rounding, the one of IEEE doubles included. Exceptions are values of
  \<open>py_exception\<close>; a function that may raise returns a sum whose left side is the
  exception. An f-string is kept as the list of its pieces (literal text and formatted
  values), so that a statement about the text of a message is a statement about its
  literal pieces and does not depend on how Python prints a float.
\<close>

datatype frag =
    Lit string            \<comment> \<open>literal text of the f-string\<close>
  | Num real              \<comment> \<open>\<open>{x}\<close> for a float\<close>
  | Num1 real             \<comment> \<open>\<open>{x:.1f}\<close>\<close>
  | Num2 real             \<comment> \<open>\<open>{x:.2f}\<close>\<close>
  | IntV int              \<comment> \<open>\<open>{n}\<close> for an int\<close>
  | StrV string           \<comment> \<open>\<open>{s}\<close> for a str\<close>
  | NoneV                 \<comment> \<open>\<open>{x}\<close> where x is None\<close>

type_synonym fstring = "frag list"

datatype py_exception =
    ValueError fstring
  | ZeroDivisionError
  | TypeError
  | InvalidOrderError fstring

text \<open>
  Float arithmetic under a rounding \<open>rnd\<close> (for Python, the double nearest to a real).
\<close>

type_synonym rounding = "real \<Rightarrow> real"

definition fl_add :: "rounding \<Rightarrow> real \<Rightarrow> real \<Rightarrow> real" where
  "fl_add rnd a b = rnd (a + b)"

definition fl_sub :: "rounding \<Rightarrow> real \<Rightarrow> real \<Rightarrow> real" where
  "fl_sub rnd a b = rnd (a - b)"

definition fl_mul :: "rounding \<Rightarrow> real \<Rightarrow> real \<Rightarrow> real" where
  "fl_mul rnd a b = rnd (a * b)"

definition fl_div :: "rounding \<Rightarrow> real \<Rightarrow> real \<Rightarrow> real" where
  "fl_div rnd a b = rnd (a / b)"

text \<open>
  A number held by a Python variable that starts as a float: a float, or a complex number
  once a negative float has been raised to a non-integer power. \<open>py_pow\<close> is
  \<open>float ** float\<close>; comparing a float with a complex number raises TypeError.
\<close>

datatype pynum = PyFloat real | PyComplex complex

definition py_pow :: "real \<Rightarrow> real \<Rightarrow> py_exception + pynum" where
  "py_pow b ex =
     (if ex = 0 then Inr (PyFloat 1)
      else if b = 0 \<and> ex < 0 then Inl ZeroDivisionError
      else if b < 0 \<and> ex \<notin> \<int> then
        Inr (PyComplex (of_real (\<bar>b\<bar> powr ex) * cis (pi * ex)))
      else if b < 0 then Inr (PyFloat (b powi \<lfloor>ex\<rfloor>))
      else Inr (PyFloat (b powr ex)))"

fun exception_name :: "py_exception \<Rightarrow> string" where
  "exception_name (ValueError m) = ''ValueError''"
| "exception_name ZeroDivisionError = ''ZeroDivisionError''"
| "exception_name TypeError = ''TypeError''"
| "exception_name (InvalidOrderError m) = ''InvalidOrderError''"

fun startswith :: "string \<Rightarrow> string \<Rightarrow> bool" where
  "startswith s p = (take (length p) s = p)"

fun contains_str :: "string \<Rightarrow> string \<Rightarrow> bool" where
  "contains_str [] t = (t = [])"
| "contains_str (c # cs) t = (startswith (c # cs) t \<or> contains_str cs t)"

text \<open>The pieces of an f-string that carry text: literals and interpolated strings.\<close>

fun frag_text :: "frag \<Rightarrow> string" where
  "frag_text (Lit s) = s"
| "frag_text (StrV s) = s"
| "frag_text NoneV = ''None''"
| "frag_text _ = []"

definition contains_text :: "fstring \<Rightarrow> string \<Rightarrow> bool" where
  "contains_text fs t = list_ex (\<lambda>f. contains_str (frag_text f) t) fs"

section \<open>Risk engine (risk-engine/engine/core.py)\<close>

record RiskLimits =
  max_drawdown_percent :: real
  max_position_size_percent :: real
  daily_loss_limit_percent :: real
  max_leverage :: int
  max_open_positions :: int
  max_correlation :: real
  max_exposure_per_asset :: real

definition RiskLimits_default :: RiskLimits where
  "RiskLimits_default =
     \<lparr>max_drawdown_percent = 10, max_position_size_percent = 5,
      daily_loss_limit_percent = 3, max_leverage = 10, max_open_positions = 10,
      max_correlation = 7 / 10, max_exposure_per_asset = 20\<rparr>"

record PositionRisk =
  pr_symbol :: string
  pr_side :: string
  pr_size :: real
  pr_entry_price :: real
  pr_current_price :: real
  pr_leverage :: real
  pr_unrealized_pnl :: real
  pr_unrealized_pnl_percent :: real
  pr_liquidation_distance_percent :: real

record PortfolioRisk =
  total_equity :: real
  total_exposure :: real
  total_unrealized_pnl :: real
  total_realized_pnl_today :: real
  current_drawdown_percent :: real
  pf_max_drawdown_percent :: real
  open_positions :: nat
  daily_pnl_percent :: real
  pf_timestamp :: nat

text \<open>
  The \<open>positions\<close> dict is an association list with distinct keys (insertion order, as
  a Python dict); \<open>len\<close> is its length. Dates and clock readings are numbers handed in
  by the caller (\<open>datetime.utcnow()\<close> in the source).
\<close>

record RiskEngine =
  limits :: RiskLimits
  peak_equity :: real
  starting_equity_today :: real
  realized_pnl_today :: real
  positions :: "(string \<times> PositionRisk) list"
  last_reset_date :: "nat option"
  is_killed :: bool
  kill_reason :: "string option"

definition RiskEngine_init :: "RiskLimits \<Rightarrow> RiskEngine" where
  "RiskEngine_init l =
     \<lparr>limits = l, peak_equity = 0, starting_equity_today = 0, realized_pnl_today = 0,
      positions = [], last_reset_date = None, is_killed = False, kill_reason = None\<rparr>"

definition update_limits :: "RiskEngine \<Rightarrow> RiskLimits \<Rightarrow> RiskEngine" where
  "update_limits e l = e\<lparr>limits := l\<rparr>"

record Validation =
  valid :: bool
  reason :: "fstring option"

definition reject :: "fstring \<Rightarrow> Validation" where
  "reject r = \<lparr>valid = False, reason = Some r\<rparr>"

definition accept :: Validation where
  "accept = \<lparr>valid = True, reason = None\<rparr>"

definition str_opt :: "string option \<Rightarrow> frag" where
  "str_opt s = (case s of None \<Rightarrow> NoneV | Some t \<Rightarrow> StrV t)"

definition check_daily_loss_exceeded :: "RiskEngine \<Rightarrow> bool" where
  "check_daily_loss_exceeded e =
     (if starting_equity_today e = 0 then False
      else let current_equity = starting_equity_today e + realized_pnl_today e;
               daily_loss_pct =
                 ((starting_equity_today e - current_equity) / starting_equity_today e) * 100
           in daily_loss_pct \<ge> daily_loss_limit_percent (limits e))"

definition check_max_drawdown_exceeded :: "RiskEngine \<Rightarrow> real \<Rightarrow> bool" where
  "check_max_drawdown_exceeded e current_equity =
     (if peak_equity e = 0 then False
      else let current_dd = ((peak_equity e - current_equity) / peak_equity e) * 100
           in current_dd \<ge> max_drawdown_percent (limits e))"

definition position_size_percent :: "real \<Rightarrow> real \<Rightarrow> real \<Rightarrow> real" where
  "position_size_percent quantity price portfolio_value =
     (let order_value = quantity * price
      in if portfolio_value \<noteq> 0 then (order_value / portfolio_value) * 100 else 0)"

definition validate_order ::
  "RiskEngine \<Rightarrow> string \<Rightarrow> string \<Rightarrow> real \<Rightarrow> real \<Rightarrow> real \<Rightarrow> real \<Rightarrow> Validation" where
  "validate_order e symbol side quantity price leverage portfolio_value =
     (if is_killed e then
        reject [Lit ''Kill switch active: '', str_opt (kill_reason e)]
      else if leverage > of_int (max_leverage (limits e)) then
        reject [Lit ''Leverage '', Num leverage, Lit ''x exceeds max '',
                IntV (max_leverage (limits e)), Lit ''x'']
      else if position_size_percent quantity price portfolio_value
                > max_position_size_percent (limits e) then
        reject [Lit ''Position size '',
                Num1 (position_size_percent quantity price portfolio_value),
                Lit ''% exceeds max '', Num (max_position_size_percent (limits e)),
                Lit ''%'']
      else if int (length (positions e)) \<ge> max_open_positions (limits e)
              \<and> symbol \<notin> set (map fst (positions e)) then
        reject [Lit ''Max open positions ('', IntV (max_open_positions (limits e)),
                Lit '') reached'']
      else if check_daily_loss_exceeded e then
        reject [Lit ''Daily loss limit ('', Num (daily_loss_limit_percent (limits e)),
                Lit ''%) exceeded'']
      else if check_max_drawdown_exceeded e portfolio_value then
        reject [Lit ''Max drawdown ('', Num (max_drawdown_percent (limits e)),
                Lit ''%) exceeded'']
      else accept)"

text \<open>
  \<open>update_position\<close> divides by \<open>entry_price * size\<close>; Python raises
  ZeroDivisionError there, before the dict is written.
\<close>

definition update_position ::
  "RiskEngine \<Rightarrow> string \<Rightarrow> string \<Rightarrow> real \<Rightarrow> real \<Rightarrow> real \<Rightarrow> real
     \<Rightarrow> py_exception + RiskEngine" where
  "update_position e symbol side sz entry_price current_price leverage =
     (if sz = 0 then Inr (e\<lparr>positions := AList.delete symbol (positions e)\<rparr>)
      else
        let unrealized_pnl =
              (if side = ''long'' then (current_price - entry_price) * sz
               else (entry_price - current_price) * sz)
        in if entry_price * sz = 0 then Inl ZeroDivisionError
           else
             let unrealized_pnl_percent = (unrealized_pnl / (entry_price * sz)) * 100
             in Inr (e\<lparr>positions :=
                  AList.update symbol
                    \<lparr>pr_symbol = symbol, pr_side = side, pr_size = sz,
                     pr_entry_price = entry_price, pr_current_price = current_price,
                     pr_leverage = leverage, pr_unrealized_pnl = unrealized_pnl,
                     pr_unrealized_pnl_percent = unrealized_pnl_percent,
                     pr_liquidation_distance_percent = 0\<rparr>
                    (positions e)\<rparr>))"

definition calculate_portfolio_risk ::
  "RiskEngine \<Rightarrow> real \<Rightarrow> nat \<Rightarrow> PortfolioRisk \<times> RiskEngine" where
  "calculate_portfolio_risk e0 equity now =
     (let e = (if equity > peak_equity e0 then e0\<lparr>peak_equity := equity\<rparr> else e0);
          current_dd =
            (if peak_equity e > 0 then ((peak_equity e - equity) / peak_equity e) * 100
             else 0);
          total_unrealized = sum_list (map (\<lambda>(k, p). pr_unrealized_pnl p) (positions e));
          exposure =
            sum_list (map (\<lambda>(k, p). pr_size p * pr_current_price p * pr_leverage p)
                        (positions e));
          daily_pnl =
            (if starting_equity_today e > 0
             then ((equity - starting_equity_today e) / starting_equity_today e) * 100
             else 0)
      in (\<lparr>total_equity = equity, total_exposure = exposure,
           total_unrealized_pnl = total_unrealized,
           total_realized_pnl_today = realized_pnl_today e,
           current_drawdown_percent = current_dd,
           pf_max_drawdown_percent = max_drawdown_percent (limits e),
           open_positions = length (positions e),
           daily_pnl_percent = daily_pnl, pf_timestamp = now\<rparr>, e))"

definition trigger_kill_switch :: "RiskEngine \<Rightarrow> string \<Rightarrow> RiskEngine" where
  "trigger_kill_switch e r = e\<lparr>is_killed := True, kill_reason := Some r\<rparr>"

definition reset_kill_switch :: "RiskEngine \<Rightarrow> RiskEngine" where
  "reset_kill_switch e = e\<lparr>is_killed := False, kill_reason := None\<rparr>"

definition reset_daily_tracking :: "RiskEngine \<Rightarrow> real \<Rightarrow> nat \<Rightarrow> RiskEngine" where
  "reset_daily_tracking e current_equity today =
     e\<lparr>starting_equity_today := current_equity, realized_pnl_today := 0,
       last_reset_date := Some today\<rparr>"

text \<open>
  A call of one public method of a \<open>RiskEngine\<close>, and the engine it leaves behind. A call
  that raises leaves the engine as it was (the only raise, in \<open>update_position\<close>,
  comes before any assignment); \<open>validate_order\<close> assigns nothing.
\<close>

datatype risk_call =
    ValidateOrder string string real real real real
  | UpdatePosition string string real real real real
  | CalculatePortfolioRisk real nat
  | ResetDailyTracking real nat
  | TriggerKillSwitch string
  | ResetKillSwitch
  | UpdateLimits RiskLimits

fun risk_step :: "RiskEngine \<Rightarrow> risk_call \<Rightarrow> RiskEngine" where
  "risk_step e (ValidateOrder symbol side q p lev pv) = e"
| "risk_step e (UpdatePosition symbol side sz ep cp lev) =
     (case update_position e symbol side sz ep cp lev of Inl x \<Rightarrow> e | Inr e' \<Rightarrow> e')"
| "risk_step e (CalculatePortfolioRisk eq now) = snd (calculate_portfolio_risk e eq now)"
| "risk_step e (ResetDailyTracking eq today) = reset_daily_tracking e eq today"
| "risk_step e (TriggerKillSwitch r) = trigger_kill_switch e r"
| "risk_step e ResetKillSwitch = reset_kill_switch e"
| "risk_step e (UpdateLimits l) = update_limits e l"

fun risk_run :: "RiskEngine \<Rightarrow> risk_call list \<Rightarrow> RiskEngine" where
  "risk_run e [] = e"
| "risk_run e (c # cs) = risk_run (risk_step e c) cs"

text \<open>
  The order of the checks as the specification lists it: each check alone, as a function
  to an optional rejection, and the first rejection of the list.
\<close>

type_synonym order_args = "string \<times> string \<times> real \<times> real \<times> real \<times> real"

definition check_kill_switch :: "RiskEngine \<Rightarrow> order_args \<Rightarrow> fstring option" where
  "check_kill_switch e a =
     (if is_killed e then Some [Lit ''Kill switch active: '', str_opt (kill_reason e)]
      else None)"

definition check_leverage :: "RiskEngine \<Rightarrow> order_args \<Rightarrow> fstring option" where
  "check_leverage e a =
     (case a of (symbol, side, quantity, price, leverage, portfolio_value) \<Rightarrow>
        if leverage > of_int (max_leverage (limits e))
        then Some [Lit ''Leverage '', Num leverage, Lit ''x exceeds max '',
                   IntV (max_leverage (limits e)), Lit ''x'']
        else None)"

definition check_position_size :: "RiskEngine \<Rightarrow> order_args \<Rightarrow> fstring option" where
  "check_position_size e a =
     (case a of (symbol, side, quantity, price, leverage, portfolio_value) \<Rightarrow>
        if position_size_percent quantity price portfolio_value
             > max_position_size_percent (limits e)
        then Some [Lit ''Position size '',
                   Num1 (position_size_percent quantity price portfolio_value),
                   Lit ''% exceeds max '', Num (max_position_size_percent (limits e)),
                   Lit ''%'']
        else None)"

definition check_open_positions :: "RiskEngine \<Rightarrow> order_args \<Rightarrow> fstring option" where
  "check_open_positions e a =
     (case a of (symbol, side, quantity, price, leverage, portfolio_value) \<Rightarrow>
        if int (length (positions e)) \<ge> max_open_positions (limits e)
           \<and> symbol \<notin> set (map fst (positions e))
        then Some [Lit ''Max open positions ('', IntV (max_open_positions (limits e)),
                   Lit '') reached'']
        else None)"

definition check_daily_loss :: "RiskEngine \<Rightarrow> order_args \<Rightarrow> fstring option" where
  "check_daily_loss e a =
     (if check_daily_loss_exceeded e
      then Some [Lit ''Daily loss limit ('', Num (daily_loss_limit_percent (limits e)),
                 Lit ''%) exceeded'']
      else None)"

definition check_drawdown :: "RiskEngine \<Rightarrow> order_args \<Rightarrow> fstring option" where
  "check_drawdown e a =
     (case a of (symbol, side, quantity, price, leverage, portfolio_value) \<Rightarrow>
        if check_max_drawdown_exceeded e portfolio_value
        then Some [Lit ''Max drawdown ('', Num (max_drawdown_percent (limits e)),
                   Lit ''%) exceeded'']
        else None)"

definition checks_in_order :: "(RiskEngine \<Rightarrow> order_args \<Rightarrow> fstring option) list" where
  "checks_in_order =
     [check_kill_switch, check_leverage, check_position_size, check_open_positions,
      check_daily_loss, check_drawdown]"

fun first_failure ::
  "(RiskEngine \<Rightarrow> order_args \<Rightarrow> fstring option) list \<Rightarrow> RiskEngine \<Rightarrow> order_args
     \<Rightarrow> Validation" where
  "first_failure [] e a = accept"
| "first_failure (c # cs) e a =
     (case c e a of Some r \<Rightarrow> reject r | None \<Rightarrow> first_failure cs e a)"

section \<open>Kill switch (risk-engine/engine/kill_switch.py)\<close>

datatype KillSwitchTrigger =
    MANUAL | MAX_DRAWDOWN | DAILY_LOSS | EXCHANGE_ERROR | POSITION_LIQUIDATION
  | ABNORMAL_VOLATILITY | CONNECTION_LOSS | SYSTEM_ERROR

record KillSwitchEvent =
  trigger :: KillSwitchTrigger
  ev_reason :: fstring
  ev_affected_bots :: "string list"
  ev_timestamp :: nat
  auto_reset_at :: "nat option"

text \<open>
  A \<open>KillSwitch\<close> is an object of its own: it holds no reference to a \<open>RiskEngine\<close>,
  and no method of either class reads or writes a field of the other.
\<close>

record KillSwitch =
  is_active :: bool
  events :: "KillSwitchEvent list"
  affected_bots :: "string list"

definition KillSwitch_init :: KillSwitch where
  "KillSwitch_init = \<lparr>is_active = False, events = [], affected_bots = []\<rparr>"

definition activate ::
  "KillSwitch \<Rightarrow> KillSwitchTrigger \<Rightarrow> fstring \<Rightarrow> string list option \<Rightarrow> nat
     \<Rightarrow> KillSwitchEvent \<times> KillSwitch" where
  "activate ks trg rsn bot_ids now =
     (let bots = (case bot_ids of None \<Rightarrow> [] | Some bs \<Rightarrow> bs);
          event = \<lparr>trigger = trg, ev_reason = rsn, ev_affected_bots = bots,
                   ev_timestamp = now, auto_reset_at = None\<rparr>
      in (event, ks\<lparr>is_active := True, affected_bots := bots,
                     events := events ks @ [event]\<rparr>))"

text \<open>
  \<open>not confirmation_code\<close> holds for None and for the empty string. The result is the
  exception raised, if any, and the switch as the call leaves it.
\<close>

definition deactivate :: "KillSwitch \<Rightarrow> string option \<Rightarrow> py_exception option \<times> KillSwitch" where
  "deactivate ks confirmation_code =
     (if confirmation_code = None \<or> confirmation_code = Some []
      then (Some (ValueError [Lit ''Confirmation required to reset kill switch'']), ks)
      else (None, ks\<lparr>is_active := False, affected_bots := []\<rparr>))"

definition check_conditions ::
  "KillSwitch \<Rightarrow> real \<Rightarrow> real \<Rightarrow> real \<Rightarrow> real \<Rightarrow> bool \<Rightarrow> nat
     \<Rightarrow> KillSwitchEvent option \<times> KillSwitch" where
  "check_conditions ks current_drawdown max_drawdown daily_loss max_daily_loss
       exchange_healthy now =
     (if is_active ks then (None, ks)
      else if current_drawdown \<ge> max_drawdown then
        (let (ev, ks') =
               activate ks MAX_DRAWDOWN
                 [Lit ''Drawdown '', Num2 current_drawdown, Lit ''% exceeded limit '',
                  Num2 max_drawdown, Lit ''%''] None now
         in (Some ev, ks'))
      else if daily_loss \<ge> max_daily_loss then
        (let (ev, ks') =
               activate ks DAILY_LOSS
                 [Lit ''Daily loss '', Num2 daily_loss, Lit ''% exceeded limit '',
                  Num2 max_daily_loss, Lit ''%''] None now
         in (Some ev, ks'))
      else if \<not> exchange_healthy then
        (let (ev, ks') =
               activate ks EXCHANGE_ERROR [Lit ''Exchange connection unhealthy''] None now
         in (Some ev, ks'))
      else (None, ks))"

section \<open>Strategies (strategy-engine/engine/strategies)\<close>

subsection \<open>base.py\<close>

datatype SignalType = BUY | SELL | CLOSE_LONG | CLOSE_SHORT | HOLD

datatype ind_value = IndNum real | IndStr string | IndInt int

record Signal =
  sig_type :: SignalType
  sig_symbol :: string
  sig_price :: real
  sig_quantity :: "real option"
  confidence :: real
  sig_reason :: fstring
  stop_loss :: "real option"
  take_profit :: "real option"
  indicators :: "(string \<times> ind_value) list"
  sig_timestamp :: nat

text \<open>
  The fields of \<open>BaseStrategy\<close> that the strategies below read or write; the candle ring
  and the orderbook snapshot are only touched by \<open>on_candle\<close> and \<open>on_orderbook\<close>.
  A tick is a dict from field names to numbers.
\<close>

record BaseStrategy =
  bs_symbol :: string
  is_running :: bool
  bs_current_price :: real
  position_size :: real
  bs_entry_price :: real
  unrealized_pnl :: real

type_synonym tick = "string \<Rightarrow> real option"

definition tick_price :: "tick \<Rightarrow> real" where
  "tick_price t = (case t ''price'' of None \<Rightarrow> 0 | Some p \<Rightarrow> p)"

subsection \<open>grid.py\<close>

record GridLevel =
  gl_price :: pynum
  is_buy :: bool
  gl_is_filled :: bool
  order_id :: "string option"

record GridStrategy = BaseStrategy +
  grid_type :: string
  upper_price :: real
  lower_price :: real
  grid_count :: int
  order_size :: real
  trigger_price :: "real option"
  grid_levels :: "GridLevel list"
  g_is_active :: bool
  total_profit :: real

definition GridStrategy_init ::
  "string \<Rightarrow> string option \<Rightarrow> real \<Rightarrow> real \<Rightarrow> int \<Rightarrow> real \<Rightarrow> real option \<Rightarrow> GridStrategy" where
  "GridStrategy_init smb gtype upper lower n osize trig =
     \<lparr>bs_symbol = smb, is_running = False, bs_current_price = 0, position_size = 0,
      bs_entry_price = 0, unrealized_pnl = 0,
      grid_type = (case gtype of None \<Rightarrow> ''arithmetic'' | Some t \<Rightarrow> t),
      upper_price = upper, lower_price = lower, grid_count = n, order_size = osize,
      trigger_price = trig, grid_levels = [], g_is_active = False, total_profit = 0\<rparr>"

definition new_level :: "pynum \<Rightarrow> GridLevel" where
  "new_level p = \<lparr>gl_price = p, is_buy = True, gl_is_filled = False, order_id = None\<rparr>"

text \<open>The price of a geometric level, \<open>lower_price * (ratio ** i)\<close>.\<close>

definition geometric_price :: "real \<Rightarrow> pynum \<Rightarrow> nat \<Rightarrow> pynum" where
  "geometric_price lower ratio i =
     (case ratio of
        PyFloat r \<Rightarrow> PyFloat (lower * r ^ i)
      | PyComplex z \<Rightarrow> PyComplex (of_real lower * z ^ i))"

text \<open>
  \<open>range(grid_count + 1)\<close> is empty for a negative bound. The arithmetic step divides by
  \<open>grid_count\<close>; the geometric ratio divides by \<open>lower_price\<close> and by \<open>grid_count\<close>
  and then takes a power, which for a negative base and a count other than 1 and -1 is a
  complex number. \<open>_build_grid\<close> stores complex prices without raising.
\<close>

definition build_grid :: "GridStrategy \<Rightarrow> py_exception + GridStrategy" where
  "build_grid g =
     (if grid_type g = ''arithmetic'' then
        (if grid_count g = 0 then Inl ZeroDivisionError
         else
           let step = (upper_price g - lower_price g) / of_int (grid_count g)
           in Inr (g\<lparr>grid_levels :=
                 map (\<lambda>i. new_level (PyFloat (lower_price g + of_nat i * step)))
                     [0 ..< nat (grid_count g + 1)]\<rparr>))
      else
        (if lower_price g = 0 \<or> grid_count g = 0 then Inl ZeroDivisionError
         else
           case py_pow (upper_price g / lower_price g) (1 / of_int (grid_count g)) of
             Inl err \<Rightarrow> Inl err
           | Inr ratio \<Rightarrow>
               Inr (g\<lparr>grid_levels :=
                 map (\<lambda>i. new_level (geometric_price (lower_price g) ratio i))
                     [0 ..< nat (grid_count g + 1)]\<rparr>)))"

definition Grid_initialize :: "GridStrategy \<Rightarrow> py_exception + GridStrategy" where
  "Grid_initialize g = build_grid (g\<lparr>is_running := True, grid_levels := []\<rparr>)"

definition grid_signal :: "SignalType \<Rightarrow> string \<Rightarrow> real \<Rightarrow> real \<Rightarrow> nat \<Rightarrow> Signal" where
  "grid_signal ty smb lp osize now =
     \<lparr>sig_type = ty, sig_symbol = smb, sig_price = lp, sig_quantity = Some osize,
      confidence = 1,
      sig_reason = [Lit (if ty = BUY then ''Grid buy at '' else ''Grid sell at ''), Num lp],
      stop_loss = None, take_profit = None,
      indicators = [(''grid_level'', IndNum lp)], sig_timestamp = now\<rparr>"

text \<open>
  The loop \<open>for level in self.grid_levels\<close>: it returns at the first level that fires,
  after writing that level's two flags; a filled level is skipped. On an unfilled level
  one of the two comparisons with \<open>level.price\<close> is always evaluated, and raises
  TypeError, before any write, when that price is complex. The result is the exception
  or the optional signal, and the levels as the loop leaves them.
\<close>

fun scan_levels ::
  "string \<Rightarrow> real \<Rightarrow> nat \<Rightarrow> real \<Rightarrow> GridLevel list
     \<Rightarrow> (py_exception + Signal option) \<times> GridLevel list" where
  "scan_levels smb osize now p [] = (Inr None, [])"
| "scan_levels smb osize now p (l # ls) =
     (if gl_is_filled l then
        (let (r, ls') = scan_levels smb osize now p ls in (r, l # ls'))
      else
        case gl_price l of
          PyComplex z \<Rightarrow> (Inl TypeError, l # ls)
        | PyFloat lp \<Rightarrow>
            if is_buy l \<and> p \<le> lp then
              (Inr (Some (grid_signal BUY smb lp osize now)),
               l\<lparr>gl_is_filled := True, is_buy := False\<rparr> # ls)
            else if \<not> is_buy l \<and> p \<ge> lp then
              (Inr (Some (grid_signal SELL smb lp osize now)),
               l\<lparr>gl_is_filled := False, is_buy := True\<rparr> # ls)
            else
              (let (r, ls') = scan_levels smb osize now p ls in (r, l # ls')))"

definition truthy :: "real option \<Rightarrow> bool" where
  "truthy x = (case x of None \<Rightarrow> False | Some v \<Rightarrow> v \<noteq> 0)"

text \<open>
  The result of \<open>on_tick\<close>: the exception raised or the optional signal returned, and
  the strategy as the call leaves it.
\<close>

definition Grid_on_tick ::
  "GridStrategy \<Rightarrow> tick \<Rightarrow> nat \<Rightarrow> (py_exception + Signal option) \<times> GridStrategy" where
  "Grid_on_tick g t now =
     (let p = tick_price t in
      if p = 0 then (Inr None, g)
      else
        let g1 = g\<lparr>bs_current_price := p\<rparr>;
            armed =
              (if truthy (trigger_price g1) \<and> \<not> g_is_active g1 then
                 (if p \<ge> the (trigger_price g1) then Some (g1\<lparr>g_is_active := True\<rparr>)
                  else None)
               else Some (g1\<lparr>g_is_active := True\<rparr>))
        in case armed of
             None \<Rightarrow> (Inr None, g1)
           | Some g2 \<Rightarrow>
               if p > upper_price g2 \<or> p < lower_price g2 then (Inr None, g2)
               else
                 let (r, ls') =
                       scan_levels (bs_symbol g2) (order_size g2) now p (grid_levels g2)
                 in (r, g2\<lparr>grid_levels := ls'\<rparr>))"

text \<open>
  A level as \<open>_build_grid\<close> makes it and as the buy branch leaves it: it is filled
  exactly when its next action is a sell.
\<close>

definition buy_or_filled :: "GridLevel \<Rightarrow> bool" where
  "buy_or_filled l = (gl_is_filled l = (\<not> is_buy l))"

text \<open>
  Feeding a list of ticks to a strategy, collecting the signals it returns. A tick on
  which \<open>on_tick\<close> raises gives no signal and the next tick goes on, as in the runtime
  (\<open>_on_market_event\<close> of engine/core.py catches and logs the exception).
\<close>

definition emitted_signal :: "py_exception + Signal option \<Rightarrow> Signal list" where
  "emitted_signal r = (case r of Inr (Some s) \<Rightarrow> [s] | _ \<Rightarrow> [])"

fun Grid_feed :: "GridStrategy \<Rightarrow> real list \<Rightarrow> nat \<Rightarrow> Signal list \<times> GridStrategy" where
  "Grid_feed g [] now = ([], g)"
| "Grid_feed g (p # ps) now =
     (let (r, g') = Grid_on_tick g [''price'' \<mapsto> p] now;
          (rs, g'') = Grid_feed g' ps (Suc now)
      in (emitted_signal r @ rs, g''))"

definition Grid_validate_params :: "GridStrategy \<Rightarrow> bool" where
  "Grid_validate_params g =
     (if upper_price g \<le> lower_price g then False
      else if grid_count g < 2 then False
      else if order_size g \<le> 0 then False
      else True)"

subsection \<open>dca.py\<close>

record SafetyOrder =
  order_num :: int
  deviation_percent :: real
  so_size :: real
  so_trigger_price :: real
  so_is_filled :: bool

record DCAStrategy = BaseStrategy +
  base_order_size :: real
  safety_order_size :: real
  max_safety_orders :: int
  price_deviation :: real
  step_scale :: real
  volume_scale :: real
  take_profit_pct :: real
  stop_loss_pct :: "real option"
  safety_orders :: "SafetyOrder list"
  base_order_filled :: bool
  average_entry :: real
  total_quantity :: real
  total_invested :: real

definition default :: "'a option \<Rightarrow> 'a \<Rightarrow> 'a" where
  "default x d = (case x of None \<Rightarrow> d | Some v \<Rightarrow> v)"

definition DCAStrategy_init ::
  "string \<Rightarrow> real \<Rightarrow> real \<Rightarrow> int option \<Rightarrow> real option \<Rightarrow> real option \<Rightarrow> real option
     \<Rightarrow> real option \<Rightarrow> real option \<Rightarrow> DCAStrategy" where
  "DCAStrategy_init smb base safety max_so dev sscale vscale tp sl =
     \<lparr>bs_symbol = smb, is_running = False, bs_current_price = 0, position_size = 0,
      bs_entry_price = 0, unrealized_pnl = 0,
      base_order_size = base, safety_order_size = safety,
      max_safety_orders = default max_so 5, price_deviation = default dev 1,
      step_scale = default sscale 1, volume_scale = default vscale 1,
      take_profit_pct = default tp (3 / 2), stop_loss_pct = sl,
      safety_orders = [], base_order_filled = False, average_entry = 0,
      total_quantity = 0, total_invested = 0\<rparr>"

text \<open>
  The ladder loop \<open>for i in range(self.max_safety_orders)\<close> with its two running
  values; the first argument counts the iterations left.
\<close>

fun ladder ::
  "rounding \<Rightarrow> nat \<Rightarrow> int \<Rightarrow> real \<Rightarrow> real \<Rightarrow> real \<Rightarrow> real \<Rightarrow> SafetyOrder list" where
  "ladder rnd 0 i current_deviation current_size inc vscale = []"
| "ladder rnd (Suc n) i current_deviation current_size inc vscale =
     \<lparr>order_num = i + 1, deviation_percent = current_deviation, so_size = current_size,
      so_trigger_price = 0, so_is_filled = False\<rparr>
     # ladder rnd n (i + 1) (fl_add rnd current_deviation inc)
         (fl_mul rnd current_size vscale) inc vscale"

definition build_safety_orders :: "rounding \<Rightarrow> DCAStrategy \<Rightarrow> DCAStrategy" where
  "build_safety_orders rnd d =
     d\<lparr>safety_orders :=
        ladder rnd (nat (max_safety_orders d)) 0 (price_deviation d) (safety_order_size d)
          (fl_mul rnd (price_deviation d) (step_scale d)) (volume_scale d)\<rparr>"

definition DCA_initialize :: "rounding \<Rightarrow> DCAStrategy \<Rightarrow> DCAStrategy" where
  "DCA_initialize rnd d = build_safety_orders rnd (d\<lparr>is_running := True\<rparr>)"

definition update_safety_triggers :: "rounding \<Rightarrow> DCAStrategy \<Rightarrow> real \<Rightarrow> DCAStrategy" where
  "update_safety_triggers rnd d ep =
     d\<lparr>safety_orders :=
        map (\<lambda>so. so\<lparr>so_trigger_price :=
                     fl_mul rnd ep (fl_sub rnd 1 (fl_div rnd (deviation_percent so) 100))\<rparr>)
            (safety_orders d)\<rparr>"

definition dca_signal ::
  "SignalType \<Rightarrow> string \<Rightarrow> real \<Rightarrow> real \<Rightarrow> fstring \<Rightarrow> (string \<times> ind_value) list \<Rightarrow> nat
     \<Rightarrow> Signal" where
  "dca_signal ty smb p q rsn inds now =
     \<lparr>sig_type = ty, sig_symbol = smb, sig_price = p, sig_quantity = Some q,
      confidence = 1, sig_reason = rsn, stop_loss = None, take_profit = None,
      indicators = inds, sig_timestamp = now\<rparr>"

text \<open>The loop over the safety orders: the first unfilled one at or above the price fires.\<close>

fun scan_safety ::
  "string \<Rightarrow> nat \<Rightarrow> real \<Rightarrow> SafetyOrder list \<Rightarrow> Signal option \<times> SafetyOrder list" where
  "scan_safety smb now p [] = (None, [])"
| "scan_safety smb now p (so # sos) =
     (if so_is_filled so then
        (let (r, sos') = scan_safety smb now p sos in (r, so # sos'))
      else if p \<le> so_trigger_price so then
        (Some (dca_signal BUY smb p (so_size so)
                 [Lit ''Safety order #'', IntV (order_num so)]
                 [(''order_type'', IndStr ''safety''), (''order_num'', IndInt (order_num so))]
                 now),
         so\<lparr>so_is_filled := True\<rparr> # sos)
      else
        (let (r, sos') = scan_safety smb now p sos in (r, so # sos')))"

text \<open>
  The profit percentage as \<open>on_tick\<close> computes it,
  \<open>((price - self.average_entry) / self.average_entry) * 100\<close>: three float operations.
\<close>

definition pnl_percent :: "rounding \<Rightarrow> real \<Rightarrow> real \<Rightarrow> real" where
  "pnl_percent rnd p avg = fl_mul rnd (fl_div rnd (fl_sub rnd p avg) avg) 100"

text \<open>
  \<open>on_tick\<close> divides by \<open>average_entry\<close> once a quantity is held; Python raises
  ZeroDivisionError when it is zero. The take-profit and stop-loss branches return their
  signal and assign nothing.
\<close>

definition DCA_on_tick ::
  "rounding \<Rightarrow> DCAStrategy \<Rightarrow> tick \<Rightarrow> nat
     \<Rightarrow> py_exception + (Signal option \<times> DCAStrategy)" where
  "DCA_on_tick rnd d t now =
     (let p = tick_price t in
      if p = 0 then Inr (None, d)
      else
        let d1 = d\<lparr>bs_current_price := p\<rparr> in
        if \<not> base_order_filled d1 then
          Inr (Some (dca_signal BUY (bs_symbol d1) p (base_order_size d1)
                       [Lit ''DCA base order''] [(''order_type'', IndStr ''base'')] now),
               update_safety_triggers rnd
                 (d1\<lparr>base_order_filled := True, bs_entry_price := p\<rparr>) p)
        else
          let safety =
                (let (r, sos') = scan_safety (bs_symbol d1) now p (safety_orders d1)
                 in Inr (r, d1\<lparr>safety_orders := sos'\<rparr>))
          in
          if total_quantity d1 > 0 then
            (if average_entry d1 = 0 then Inl ZeroDivisionError
             else
               let pnl = pnl_percent rnd p (average_entry d1) in
               if pnl \<ge> take_profit_pct d1 then
                 Inr (Some (dca_signal SELL (bs_symbol d1) p (total_quantity d1)
                              [Lit ''Take profit at '', Num2 pnl, Lit ''%'']
                              [(''pnl_percent'', IndNum pnl)] now), d1)
               else if truthy (stop_loss_pct d1) \<and> pnl \<le> - the (stop_loss_pct d1) then
                 Inr (Some (dca_signal SELL (bs_symbol d1) p (total_quantity d1)
                              [Lit ''Stop loss at '', Num2 pnl, Lit ''%'']
                              [(''pnl_percent'', IndNum pnl)] now), d1)
               else safety)
          else safety)"

text \<open>
  \<open>on_order_filled\<close> adds to the two totals and then divides; when the new total
  quantity is zero the division raises with the totals already written, so the result
  is the exception, if any, and the strategy as the call leaves it.
\<close>

definition DCA_on_order_filled ::
  "rounding \<Rightarrow> DCAStrategy \<Rightarrow> tick \<Rightarrow> py_exception option \<times> DCAStrategy" where
  "DCA_on_order_filled rnd d ord =
     (let q = default (ord ''quantity'') 0;
          p = default (ord ''price'') 0;
          d1 = d\<lparr>total_quantity := fl_add rnd (total_quantity d) q,
                 total_invested := fl_add rnd (total_invested d) (fl_mul rnd q p)\<rparr>
      in if total_quantity d1 = 0 then (Some ZeroDivisionError, d1)
         else (None, d1\<lparr>average_entry :=
                           fl_div rnd (total_invested d1) (total_quantity d1)\<rparr>))"

text \<open>A run of fills, stopping at the first that raises.\<close>

fun DCA_fills ::
  "rounding \<Rightarrow> DCAStrategy \<Rightarrow> tick list \<Rightarrow> py_exception option \<times> DCAStrategy" where
  "DCA_fills rnd d [] = (None, d)"
| "DCA_fills rnd d (x # xs) =
     (case DCA_on_order_filled rnd d x of
        (Some err, d') \<Rightarrow> (Some err, d')
      | (None, d') \<Rightarrow> DCA_fills rnd d' xs)"

text \<open>The state a new cycle starts from: no base order, no safety order filled, no totals.\<close>

definition fresh_cycle :: "DCAStrategy \<Rightarrow> bool" where
  "fresh_cycle d =
     (\<not> base_order_filled d \<and> list_all (\<lambda>so. \<not> so_is_filled so) (safety_orders d)
      \<and> total_quantity d = 0 \<and> total_invested d = 0)"

definition DCA_validate_params :: "DCAStrategy \<Rightarrow> bool" where
  "DCA_validate_params d =
     (if base_order_size d \<le> 0 then False
      else if safety_order_size d \<le> 0 then False
      else if take_profit_pct d \<le> 0 then False
      else True)"

section \<open>Orders (backend/app/models/order.py, backend/app/services/order_service.py)\<close>

datatype OrderStatus =
  PENDING | SUBMITTED | OPEN | PARTIAL | FILLED | CANCELLED | REJECTED | EXPIRED

fun status_value :: "OrderStatus \<Rightarrow> string" where
  "status_value PENDING = ''pending''"
| "status_value SUBMITTED = ''submitted''"
| "status_value OPEN = ''open''"
| "status_value PARTIAL = ''partial''"
| "status_value FILLED = ''filled''"
| "status_value CANCELLED = ''cancelled''"
| "status_value REJECTED = ''rejected''"
| "status_value EXPIRED = ''expired''"

text \<open>The columns of an order row that the service methods below read or write.\<close>

record Order =
  o_id :: string
  o_bot_id :: string
  o_user_id :: string
  exchange_order_id :: "string option"
  o_symbol :: string
  status :: OrderStatus
  quantity :: real
  filled_quantity :: real
  average_price :: "real option"
  fee :: real
  filled_at :: "nat option"
  cancelled_at :: "nat option"

definition is_open :: "Order \<Rightarrow> bool" where
  "is_open ord = (status ord \<in> set [OPEN, PARTIAL, SUBMITTED])"

definition is_terminal :: "OrderStatus \<Rightarrow> bool" where
  "is_terminal st = (st \<in> set [FILLED, CANCELLED, REJECTED, EXPIRED])"

text \<open>
  What the service does to the outside: commits to the database session and events
  handed to the event bus (type and data). Both calls are taken to succeed.
\<close>

record Emitted =
  em_type :: string
  em_data :: "(string \<times> string option) list"

record Outside =
  commits :: nat
  emitted :: "Emitted list"

text \<open>
  The result of \<open>cancel_order\<close>: the exception raised, if any, the order row and the
  outside as the call leaves them.
\<close>

definition cancel_order ::
  "Order \<Rightarrow> nat \<Rightarrow> Outside \<Rightarrow> py_exception option \<times> Order \<times> Outside" where
  "cancel_order ord now out =
     (if \<not> is_open ord then
        (Some (ValueError [Lit ''Cannot cancel order with status: '',
                           StrV (status_value (status ord))]), ord, out)
      else
        let ord' = ord\<lparr>status := CANCELLED, cancelled_at := Some now\<rparr>
        in (None, ord',
                out\<lparr>commits := commits out + 1,
                    emitted := emitted out @
                      [\<lparr>em_type = ''order.cancelled'',
                        em_data = [(''order_id'', Some (o_id ord')),
                                   (''exchange_order_id'', exchange_order_id ord')]\<rparr>]\<rparr>))"

section \<open>Event bus of the strategy engine (strategy-engine/engine/event_bus.py)\<close>

text \<open>
  A handler is called with the decoded data and acts on the world \<open>'w\<close> (everything
  outside the bus, log sinks included). It returns, raises an exception derived from
  \<open>Exception\<close>, or raises one that is not (\<open>asyncio.CancelledError\<close>,
  \<open>KeyboardInterrupt\<close>, \<open>SystemExit\<close>), which \<open>except Exception\<close> does not catch.
  The \<open>handlers\<close> dict keeps insertion order. \<open>json.loads\<close> is a parameter.
\<close>

datatype outcome = Returned | Raised string | RaisedBase string

type_synonym ('d, 'w) handler = "'d \<Rightarrow> 'w \<Rightarrow> outcome \<times> 'w"

datatype 'd payload = RawBytes string | Decoded 'd

record 'd message =
  channel :: string
  msg_data :: "'d payload"

definition matches :: "string \<Rightarrow> string \<Rightarrow> bool" where
  "matches chan pat =
     (if CHR ''*'' \<notin> set pat then chan = pat
      else startswith chan (takeWhile (\<lambda>c. c \<noteq> CHR ''*'') pat))"

text \<open>The inner loop \<open>for handler in handlers\<close> with its \<open>try\<close>/\<open>except Exception: pass\<close>.\<close>

fun call_handlers :: "('d, 'w) handler list \<Rightarrow> 'd \<Rightarrow> 'w \<Rightarrow> outcome \<times> 'w" where
  "call_handlers [] d w = (Returned, w)"
| "call_handlers (h # hs) d w =
     (case h d w of
        (RaisedBase x, w') \<Rightarrow> (RaisedBase x, w')
      | (Raised x, w') \<Rightarrow> call_handlers hs d w'
      | (Returned, w') \<Rightarrow> call_handlers hs d w')"

text \<open>The outer loop \<open>for pattern, handlers in self.handlers.items()\<close>.\<close>

fun dispatch ::
  "(string \<times> ('d, 'w) handler list) list \<Rightarrow> string \<Rightarrow> 'd \<Rightarrow> 'w \<Rightarrow> outcome \<times> 'w" where
  "dispatch [] chan d w = (Returned, w)"
| "dispatch ((pat, hs) # rest) chan d w =
     (if matches chan (''xor:'' @ pat) then
        (case call_handlers hs d w of
           (RaisedBase x, w') \<Rightarrow> (RaisedBase x, w')
         | (r, w') \<Rightarrow> dispatch rest chan d w')
      else dispatch rest chan d w)"

definition handle_message ::
  "(string \<times> ('d, 'w) handler list) list \<Rightarrow> (string \<Rightarrow> string + 'd) \<Rightarrow> 'd message \<Rightarrow> 'w
     \<Rightarrow> outcome \<times> 'w" where
  "handle_message handlers json_loads m w =
     (case msg_data m of
        Decoded d \<Rightarrow> dispatch handlers (channel m) d w
      | RawBytes b \<Rightarrow>
          (case json_loads b of
             Inl err \<Rightarrow> (Raised err, w)
           | Inr d \<Rightarrow> dispatch handlers (channel m) d w))"

text \<open>The handlers a message on a channel is for, in the order the loops reach them.\<close>

definition matching_handlers ::
  "(string \<times> ('d, 'w) handler list) list \<Rightarrow> string \<Rightarrow> ('d, 'w) handler list" where
  "matching_handlers handlers chan =
     concat (map snd (filter (\<lambda>(pat, hs). matches chan (''xor:'' @ pat)) handlers))"

definition never_raises_base :: "('d, 'w) handler \<Rightarrow> 'd \<Rightarrow> bool" where
  "never_raises_base h d = (\<forall>w x. fst (h d w) \<noteq> RaisedBase x)"

section \<open>Properties of the risk engine\<close>

lemmas risk_defs =
  RiskEngine_init_def RiskLimits_default_def calculate_portfolio_risk_def Let_def
  reset_daily_tracking_def trigger_kill_switch_def reset_kill_switch_def update_limits_def
  validate_order_def position_size_percent_def check_daily_loss_exceeded_def
  check_max_drawdown_exceeded_def reject_def accept_def str_opt_def

text \<open>
  Claim C1. \<open>validate_order\<close> evaluates its checks in the order kill switch, leverage,
  position size, open positions, daily loss, drawdown, and returns the rejection of the
  first check that fails, or \<open>valid = True\<close> when none does. With
  \<open>max_position_size_percent = 5\<close> and \<open>portfolio_value = 10000\<close>, an order with
  \<open>quantity * price = 600\<close> is rejected with the position-size message (6 percent
  against 5) whenever the two earlier checks pass, that is, the kill switch is not set
  and the leverage is at most \<open>max_leverage\<close>.
\<close>

theorem validate_order_first_failing_check:
  "validate_order e s d q p lev pv
     = first_failure checks_in_order e (s, d, q, p, lev, pv)
   \<and> (\<not> is_killed e \<and> lev \<le> of_int (max_leverage (limits e))
        \<and> max_position_size_percent (limits e) = 5 \<and> q * p = 600
      \<longrightarrow> validate_order e s d q p lev 10000
            = reject [Lit ''Position size '', Num1 6, Lit ''% exceeds max '', Num 5, Lit ''%'']
          \<and> contains_text
               [Lit ''Position size '', Num1 6, Lit ''% exceeds max '', Num 5, Lit ''%'']
               ''Position size'')"
proof -
  have order: "validate_order e s d q p lev pv
      = first_failure checks_in_order e (s, d, q, p, lev, pv)"
    by (simp add: validate_order_def checks_in_order_def check_kill_switch_def
          check_leverage_def check_position_size_def check_open_positions_def
          check_daily_loss_def check_drawdown_def)
  have pct: "q * p = 600 \<Longrightarrow> position_size_percent q p 10000 = 6"
    by (simp add: position_size_percent_def)
  have lit: "contains_text
      [Lit ''Position size '', Num1 6, Lit ''% exceeds max '', Num 5, Lit ''%'']
      ''Position size''"
    by (simp add: contains_text_def)
  have inst: "\<not> is_killed e \<Longrightarrow> lev \<le> of_int (max_leverage (limits e))
      \<Longrightarrow> max_position_size_percent (limits e) = 5 \<Longrightarrow> q * p = 600
      \<Longrightarrow> validate_order e s d q p lev 10000
            = reject [Lit ''Position size '', Num1 6, Lit ''% exceeds max '', Num 5, Lit ''%'']"
    using pct by (simp add: validate_order_def)
  from order lit inst show ?thesis by blast
qed

theorem validate_order_first_failing_check_witness:
  "validate_order (RiskEngine_init RiskLimits_default) ''BTCUSDT'' ''buy'' 6 100 1 10000
     = reject [Lit ''Position size '', Num1 6, Lit ''% exceeds max '', Num 5, Lit ''%'']
   \<and> first_failure checks_in_order (RiskEngine_init RiskLimits_default)
        (''BTCUSDT'', ''buy'', 6, 100, 1, 10000)
     = reject [Lit ''Position size '', Num1 6, Lit ''% exceeds max '', Num 5, Lit ''%'']"
proof -
  let ?e = "RiskEngine_init RiskLimits_default"
  note t = validate_order_first_failing_check [of ?e "''BTCUSDT''" "''buy''" 6 100 1 10000]
  have h: "\<not> is_killed ?e \<and> (1::real) \<le> of_int (max_leverage (limits ?e))
      \<and> max_position_size_percent (limits ?e) = 5 \<and> (6::real) * 100 = 600"
    by (simp add: RiskEngine_init_def RiskLimits_default_def)
  from t h have r: "validate_order ?e ''BTCUSDT'' ''buy'' 6 100 1 10000
      = reject [Lit ''Position size '', Num1 6, Lit ''% exceeds max '', Num 5, Lit ''%'']"
    by blast
  from t have "validate_order ?e ''BTCUSDT'' ''buy'' 6 100 1 10000
      = first_failure checks_in_order ?e (''BTCUSDT'', ''buy'', 6, 100, 1, 10000)"
    by blast
  with r show ?thesis by simp
qed

text \<open>
  Without the two earlier checks passing the reason is another one: at leverage 11
  against a maximum of 10 the same order is rejected by the leverage check.
\<close>

theorem position_size_reason_counterexample:
  "max_position_size_percent (limits (RiskEngine_init RiskLimits_default)) = 5
   \<and> (6::real) * 100 = 600
   \<and> validate_order (RiskEngine_init RiskLimits_default) ''BTCUSDT'' ''buy'' 6 100 11 10000
       = reject [Lit ''Leverage '', Num 11, Lit ''x exceeds max '', IntV 10, Lit ''x'']
   \<and> \<not> contains_text
          [Lit ''Leverage '', Num 11, Lit ''x exceeds max '', IntV 10, Lit ''x'']
          ''Position size''"
  by (simp add: risk_defs contains_text_def)

text \<open>
  The kill switch of the engine stays set under every call but \<open>reset_kill_switch\<close>,
  and while it is set every order is rejected with the kill-switch message.
\<close>

lemma risk_step_latched:
  "is_killed e \<Longrightarrow> c \<noteq> ResetKillSwitch \<Longrightarrow> is_killed (risk_step e c)"
  by (cases c)
     (auto simp: update_position_def calculate_portfolio_risk_def Let_def
        reset_daily_tracking_def trigger_kill_switch_def update_limits_def
        split: sum.splits)

lemma risk_run_latched:
  "is_killed e \<Longrightarrow> ResetKillSwitch \<notin> set cs \<Longrightarrow> is_killed (risk_run e cs)"
  by (induction cs arbitrary: e) (auto simp: risk_step_latched)

lemma validate_order_killed:
  "is_killed e \<Longrightarrow>
     validate_order e s d q p lev pv
       = reject [Lit ''Kill switch active: '', str_opt (kill_reason e)]"
  by (simp add: validate_order_def)

lemma kill_switch_latching:
  "ResetKillSwitch \<notin> set cs \<Longrightarrow>
     validate_order (risk_run (trigger_kill_switch e r) cs) s d q p lev pv
       = reject [Lit ''Kill switch active: '',
                 str_opt (kill_reason (risk_run (trigger_kill_switch e r) cs))]"
  by (rule validate_order_killed, rule risk_run_latched)
     (simp_all add: trigger_kill_switch_def)

text \<open>
  Claim C2. Once \<open>trigger_kill_switch\<close> has run, every \<open>validate_order\<close> is rejected
  with the kill-switch message until the switch is reset. The reset of the engine,
  \<open>reset_kill_switch\<close>, takes no argument: after it the same order is accepted, with no
  confirmation code given anywhere.
\<close>

theorem reset_kill_switch_asks_no_confirmation:
  "validate_order
       (risk_run (RiskEngine_init RiskLimits_default) [TriggerKillSwitch ''manual''])
       ''BTCUSDT'' ''buy'' 1 100 1 10000
     = reject [Lit ''Kill switch active: '', StrV ''manual'']
   \<and> validate_order
       (risk_run (RiskEngine_init RiskLimits_default)
          [TriggerKillSwitch ''manual'', ResetKillSwitch])
       ''BTCUSDT'' ''buy'' 1 100 1 10000
     = accept"
  by (simp add: risk_defs)

lemma risk_step_peak: "peak_equity e \<le> peak_equity (risk_step e c)"
  by (cases c)
     (auto simp: update_position_def calculate_portfolio_risk_def Let_def
        reset_daily_tracking_def trigger_kill_switch_def reset_kill_switch_def
        update_limits_def split: sum.splits if_splits)

text \<open>
  Claim C7. \<open>peak_equity\<close> never decreases: over every sequence of calls of the public
  methods of one engine, its value at the end is at least its value at the start.
\<close>

theorem peak_equity_monotone: "peak_equity e \<le> peak_equity (risk_run e cs)"
proof (induction cs arbitrary: e)
  case Nil
  show ?case by simp
next
  case (Cons c cs)
  have "peak_equity e \<le> peak_equity (risk_step e c)" by (rule risk_step_peak)
  also have "\<dots> \<le> peak_equity (risk_run (risk_step e c) cs)" by (rule Cons.IH)
  finally show ?case by simp
qed

theorem peak_equity_monotone_witness:
  "peak_equity (risk_run (RiskEngine_init RiskLimits_default)
      [CalculatePortfolioRisk 10000 1, ValidateOrder ''BTCUSDT'' ''buy'' 1 100 1 10000,
       CalculatePortfolioRisk 8900 2, ResetDailyTracking 8900 3,
       TriggerKillSwitch ''manual'', ResetKillSwitch]) = 10000
   \<and> peak_equity (RiskEngine_init RiskLimits_default) \<le> 10000"
  using peak_equity_monotone [of "RiskEngine_init RiskLimits_default"
      "[CalculatePortfolioRisk 10000 1, ValidateOrder ''BTCUSDT'' ''buy'' 1 100 1 10000,
       CalculatePortfolioRisk 8900 2, ResetDailyTracking 8900 3,
       TriggerKillSwitch ''manual'', ResetKillSwitch]"]
  by (simp add: RiskEngine_init_def calculate_portfolio_risk_def Let_def
        reset_daily_tracking_def trigger_kill_switch_def reset_kill_switch_def)

text \<open>
  Claim C9. With \<open>portfolio_value = 0\<close> the position-size percentage is 0 for every
  quantity and price. With the kill switch not set, the leverage within the limit, fewer
  open positions than the maximum, no starting equity and no peak equity, the order is
  accepted, provided \<open>max_position_size_percent\<close> is not negative.
\<close>

theorem zero_portfolio_value_passes:
  "\<not> is_killed e \<Longrightarrow> lev \<le> of_int (max_leverage (limits e))
   \<Longrightarrow> int (length (positions e)) < max_open_positions (limits e)
   \<Longrightarrow> starting_equity_today e = 0 \<Longrightarrow> peak_equity e = 0
   \<Longrightarrow> 0 \<le> max_position_size_percent (limits e)
   \<Longrightarrow> position_size_percent q p 0 = 0 \<and> validate_order e s d q p lev 0 = accept"
  by (simp add: validate_order_def position_size_percent_def
        check_daily_loss_exceeded_def check_max_drawdown_exceeded_def)

theorem zero_portfolio_value_passes_witness:
  "position_size_percent 1000000 1000000 0 = 0
   \<and> validate_order (RiskEngine_init RiskLimits_default) ''BTCUSDT'' ''buy''
        1000000 1000000 1 0 = accept"
  using zero_portfolio_value_passes
    [of "RiskEngine_init RiskLimits_default" 1 1000000 1000000 "''BTCUSDT''" "''buy''"]
  by (simp add: RiskEngine_init_def RiskLimits_default_def)

text \<open>
  A negative \<open>max_position_size_percent\<close> rejects the order: 0 percent exceeds it.
\<close>

theorem negative_size_limit_counterexample:
  "validate_order
      (RiskEngine_init (RiskLimits_default\<lparr>max_position_size_percent := - 1\<rparr>))
      ''BTCUSDT'' ''buy'' 1 100 1 0
     = reject [Lit ''Position size '', Num1 0, Lit ''% exceeds max '', Num (- 1), Lit ''%'']"
  by (simp add: risk_defs)

section \<open>Properties of the kill switch\<close>

text \<open>
  With a drawdown at or above the limit, \<open>check_conditions\<close> on an inactive switch
  returns an event with trigger \<open>MAX_DRAWDOWN\<close> and leaves the switch active.
\<close>

lemma check_conditions_drawdown:
  "\<not> is_active ks \<Longrightarrow> cd \<ge> md \<Longrightarrow>
     map_option trigger (fst (check_conditions ks cd md dl mdl h now)) = Some MAX_DRAWDOWN
     \<and> is_active (snd (check_conditions ks cd md dl mdl h now))"
  by (simp add: check_conditions_def activate_def Let_def)

text \<open>
  Claim C3. An engine sees equity 10000 and then 8900: its drawdown is 11 percent.
  Against a limit of 10 percent \<open>check_conditions\<close> on a new switch returns an event
  with trigger \<open>MAX_DRAWDOWN\<close> and leaves the switch active. The activation does not
  reach the engine: an order sent afterwards with a portfolio value of 10000 is accepted.
\<close>

theorem kill_switch_activation_leaves_engine_open:
  "current_drawdown_percent
       (fst (calculate_portfolio_risk
               (snd (calculate_portfolio_risk (RiskEngine_init RiskLimits_default) 10000 1))
               8900 2)) = 11
   \<and> map_option trigger (fst (check_conditions KillSwitch_init 11 10 0 3 True 3))
       = Some MAX_DRAWDOWN
   \<and> is_active (snd (check_conditions KillSwitch_init 11 10 0 3 True 3))
   \<and> validate_order
        (snd (calculate_portfolio_risk
               (snd (calculate_portfolio_risk (RiskEngine_init RiskLimits_default) 10000 1))
               8900 2))
        ''BTCUSDT'' ''buy'' 1 100 1 10000 = accept"
  by (simp add: risk_defs check_conditions_def activate_def KillSwitch_init_def)

text \<open>
  Claim C10. \<open>deactivate\<close> raises ValueError and leaves the switch as it is when the
  confirmation code is None or empty; any non-empty code deactivates the switch and
  clears the affected bots, whatever the code is.
\<close>

theorem deactivate_confirmation:
  "(c = None \<or> c = Some [] \<longrightarrow>
      deactivate ks c
        = (Some (ValueError [Lit ''Confirmation required to reset kill switch'']), ks))
   \<and> (\<forall>code. code \<noteq> [] \<longrightarrow>
        deactivate ks (Some code) = (None, ks\<lparr>is_active := False, affected_bots := []\<rparr>))"
  by (auto simp: deactivate_def)

theorem deactivate_confirmation_witness:
  "deactivate \<lparr>is_active = True, events = [], affected_bots = [''bot-1'']\<rparr> None
     = (Some (ValueError [Lit ''Confirmation required to reset kill switch'']),
        \<lparr>is_active = True, events = [], affected_bots = [''bot-1'']\<rparr>)
   \<and> deactivate \<lparr>is_active = True, events = [], affected_bots = [''bot-1'']\<rparr> (Some '''')
     = (Some (ValueError [Lit ''Confirmation required to reset kill switch'']),
        \<lparr>is_active = True, events = [], affected_bots = [''bot-1'']\<rparr>)
   \<and> deactivate \<lparr>is_active = True, events = [], affected_bots = [''bot-1'']\<rparr>
        (Some ''not the code'')
     = (None, \<lparr>is_active = False, events = [], affected_bots = []\<rparr>)"
  using deactivate_confirmation
      [of None "\<lparr>is_active = True, events = [], affected_bots = [''bot-1'']\<rparr>"]
    deactivate_confirmation
      [of "Some ''''" "\<lparr>is_active = True, events = [], affected_bots = [''bot-1'']\<rparr>"]
  by simp

section \<open>Properties of the grid strategy\<close>

text \<open>
  Every level the grid is built with is an unfilled buy level, and the buy branch turns
  it into a filled sell level. The loop skips filled levels, so the sell branch is never
  reached: no tick sequence after \<open>initialize\<close> yields a SELL signal.
\<close>

lemma scan_levels_no_sell:
  "list_all buy_or_filled ls \<Longrightarrow>
     list_all buy_or_filled (snd (scan_levels smb osize now p ls))
     \<and> list_all (\<lambda>s. sig_type s \<noteq> SELL) (emitted_signal (fst (scan_levels smb osize now p ls)))"
  by (induction ls)
     (auto simp: buy_or_filled_def grid_signal_def emitted_signal_def
        split: prod.splits pynum.splits)

lemma Grid_on_tick_no_sell:
  "list_all buy_or_filled (grid_levels g) \<Longrightarrow>
     list_all buy_or_filled (grid_levels (snd (Grid_on_tick g t now)))
     \<and> list_all (\<lambda>s. sig_type s \<noteq> SELL) (emitted_signal (fst (Grid_on_tick g t now)))"
  using scan_levels_no_sell [of "grid_levels g" "bs_symbol g" "order_size g" now "tick_price t"]
  by (auto simp: Grid_on_tick_def Let_def emitted_signal_def
        split: prod.splits option.splits if_splits)

lemma Grid_initialize_levels:
  "Grid_initialize g0 = Inr g \<Longrightarrow> list_all buy_or_filled (grid_levels g)"
  by (auto simp: Grid_initialize_def build_grid_def Let_def buy_or_filled_def new_level_def
        list_all_iff split: if_splits sum.splits)

lemma Grid_feed_no_sell:
  "list_all buy_or_filled (grid_levels g) \<Longrightarrow>
     list_all (\<lambda>s. sig_type s \<noteq> SELL) (fst (Grid_feed g ps now))"
proof (induction ps arbitrary: g now)
  case Nil
  show ?case by simp
next
  case (Cons p ps)
  obtain r g' where t: "Grid_on_tick g [''price'' \<mapsto> p] now = (r, g')"
    by (cases "Grid_on_tick g [''price'' \<mapsto> p] now")
  from Grid_on_tick_no_sell [OF Cons.prems, of "[''price'' \<mapsto> p]" now] t
  have inv: "list_all buy_or_filled (grid_levels g')"
    and r: "list_all (\<lambda>s. sig_type s \<noteq> SELL) (emitted_signal r)" by simp_all
  from Cons.IH [OF inv, of "Suc now"] r t show ?case
    by (auto split: prod.splits)
qed

lemma Grid_on_tick_outside_range:
  "tick_price t > upper_price g \<or> tick_price t < lower_price g \<Longrightarrow>
     fst (Grid_on_tick g t now) = Inr None
     \<and> grid_levels (snd (Grid_on_tick g t now)) = grid_levels g"
  by (auto simp: Grid_on_tick_def Let_def split: option.splits)

lemma Grid_never_sells:
  "Grid_initialize g0 = Inr g \<Longrightarrow>
     list_all (\<lambda>s. sig_type s \<noteq> SELL) (fst (Grid_feed g ps now))"
  by (rule Grid_feed_no_sell) (rule Grid_initialize_levels)

text \<open>
  Claim C4. With \<open>upper = 110\<close>, \<open>lower = 100\<close>, \<open>grid_count = 10\<close> and
  \<open>order_size = 1\<close>, the ticks 100, 101, 102, 99, 101, 103, 108, 110 yield the signals
  BUY at 100, 101, 102, then nothing at 99 (out of range), then BUY at 103, 104, 108 and
  110: the fifth tick buys at the next unfilled level instead of selling at 101.
\<close>

theorem grid_scenario_emits_only_buys:
  "(case Grid_initialize (GridStrategy_init ''BTCUSDT'' None 110 100 10 1 None) of
      Inl x \<Rightarrow> False
    | Inr g \<Rightarrow>
        map (\<lambda>s. (sig_type s, sig_price s, sig_quantity s))
            (fst (Grid_feed g [100, 101, 102, 99, 101, 103, 108, 110] 0))
        = [(BUY, 100, Some 1), (BUY, 101, Some 1), (BUY, 102, Some 1), (BUY, 103, Some 1),
           (BUY, 104, Some 1), (BUY, 108, Some 1), (BUY, 110, Some 1)])"
proof -
  let ?g = "(GridStrategy_init ''BTCUSDT'' None 110 100 10 1 None)
      \<lparr>is_running := True,
       grid_levels := map (\<lambda>x. new_level (PyFloat x))
                        [100, 101, 102, 103, 104, 105, 106, 107, 108, 109, 110]\<rparr>"
  have built: "Grid_initialize (GridStrategy_init ''BTCUSDT'' None 110 100 10 1 None) = Inr ?g"
    by (simp add: Grid_initialize_def GridStrategy_init_def build_grid_def upt_rec)
  have fed: "map (\<lambda>s. (sig_type s, sig_price s, sig_quantity s))
            (fst (Grid_feed ?g [100, 101, 102, 99, 101, 103, 108, 110] 0))
        = [(BUY, 100, Some 1), (BUY, 101, Some 1), (BUY, 102, Some 1), (BUY, 103, Some 1),
           (BUY, 104, Some 1), (BUY, 108, Some 1), (BUY, 110, Some 1)]"
    by code_simp
  show ?thesis
    by (simp only: built sum.case fed)
qed

section \<open>Properties of the DCA strategy\<close>

lemma DCA_on_order_filled_average:
  "DCA_on_order_filled rnd d x = (None, d') \<Longrightarrow>
     total_quantity d' \<noteq> 0
     \<and> average_entry d' = fl_div rnd (total_invested d') (total_quantity d')"
  by (auto simp: DCA_on_order_filled_def Let_def split: if_splits)

lemma DCA_fills_average:
  "xs \<noteq> [] \<Longrightarrow> DCA_fills rnd d xs = (None, d') \<Longrightarrow>
     total_quantity d' \<noteq> 0
     \<and> average_entry d' = fl_div rnd (total_invested d') (total_quantity d')"
proof (induction xs arbitrary: d)
  case Nil
  then show ?case by simp
next
  case (Cons x xs)
  obtain r d1 where s: "DCA_on_order_filled rnd d x = (r, d1)"
    by (cases "DCA_on_order_filled rnd d x")
  with Cons.prems(2) have r: "r = None" and rest: "DCA_fills rnd d1 xs = (None, d')"
    by (auto split: option.splits)
  show ?case
  proof (cases xs)
    case Nil
    with rest have "d' = d1" by simp
    with s r show ?thesis using DCA_on_order_filled_average by blast
  next
    case (Cons y ys)
    then have "xs \<noteq> []" by simp
    from Cons.IH [OF this rest] show ?thesis .
  qed
qed

lemma DCA_take_profit:
  "base_order_filled d \<Longrightarrow> tick_price t \<noteq> 0 \<Longrightarrow> total_quantity d > 0
   \<Longrightarrow> average_entry d \<noteq> 0
   \<Longrightarrow> pnl_percent rnd (tick_price t) (average_entry d) \<ge> take_profit_pct d
   \<Longrightarrow> DCA_on_tick rnd d t now
        = Inr (Some (dca_signal SELL (bs_symbol d) (tick_price t) (total_quantity d)
                       [Lit ''Take profit at '',
                        Num2 (pnl_percent rnd (tick_price t) (average_entry d)), Lit ''%'']
                       [(''pnl_percent'',
                         IndNum (pnl_percent rnd (tick_price t) (average_entry d)))]
                       now),
               d\<lparr>bs_current_price := tick_price t\<rparr>)"
  by (simp add: DCA_on_tick_def Let_def)

text \<open>
  Claim C5. After any non-empty run of fills that \<open>on_order_filled\<close> processes without
  raising, \<open>average_entry\<close> is the float quotient \<open>total_invested / total_quantity\<close>.
  Once the base order has been placed, on a tick with a non-zero price, a positive
  \<open>total_quantity\<close>, a non-zero \<open>average_entry\<close> and a profit percentage, as
  \<open>on_tick\<close> computes it in floats, of at least \<open>take_profit_pct\<close>, \<open>on_tick\<close>
  returns a SELL of the whole \<open>total_quantity\<close> at the tick price; the strategy keeps
  its state, only \<open>current_price\<close> is written. This holds for every rounding.
\<close>

theorem DCA_average_and_take_profit:
  "(xs \<noteq> [] \<and> DCA_fills rnd d0 xs = (None, d) \<longrightarrow>
      total_quantity d \<noteq> 0
      \<and> average_entry d = fl_div rnd (total_invested d) (total_quantity d))
   \<and> (base_order_filled d \<and> tick_price t \<noteq> 0 \<and> total_quantity d > 0
        \<and> average_entry d \<noteq> 0
        \<and> pnl_percent rnd (tick_price t) (average_entry d) \<ge> take_profit_pct d
      \<longrightarrow> DCA_on_tick rnd d t now
            = Inr (Some (dca_signal SELL (bs_symbol d) (tick_price t) (total_quantity d)
                     [Lit ''Take profit at '',
                      Num2 (pnl_percent rnd (tick_price t) (average_entry d)), Lit ''%'']
                     [(''pnl_percent'',
                       IndNum (pnl_percent rnd (tick_price t) (average_entry d)))]
                     now),
                   d\<lparr>bs_current_price := tick_price t\<rparr>))"
  using DCA_fills_average [of xs rnd d0 d] DCA_take_profit [of d t rnd now] by blast

text \<open>
  The concrete checks use inputs on which every intermediate result is a whole number or
  a half (deviation 50 percent, fills of 1 at 100 and 1 at 96, a tick at 147: average 98,
  profit 50 percent). Doubles hold these exactly, so there the rounding of Python is the
  identity, which is the rounding the checks are run with.
\<close>

theorem DCA_average_and_take_profit_witness:
  "(case DCA_on_tick (\<lambda>x. x)
          (DCA_initialize (\<lambda>x. x)
             (DCAStrategy_init ''BTCUSDT'' 1 1 (Some 1) (Some 50) (Some 1) (Some 1) (Some 2) None))
          [''price'' \<mapsto> 100] 0 of
      Inl x \<Rightarrow> False
    | Inr (r0, d0) \<Rightarrow>
        (case DCA_fills (\<lambda>x. x) d0
                [[''quantity'' \<mapsto> 1, ''price'' \<mapsto> 100], [''quantity'' \<mapsto> 1, ''price'' \<mapsto> 96]] of
           (err, d) \<Rightarrow>
             err = None \<and> total_quantity d = 2 \<and> total_invested d = 196
             \<and> average_entry d = 98
             \<and> DCA_on_tick (\<lambda>x. x) d [''price'' \<mapsto> 147] 9
                 = Inr (Some (dca_signal SELL ''BTCUSDT'' 147 2
                                [Lit ''Take profit at '', Num2 50, Lit ''%'']
                                [(''pnl_percent'', IndNum 50)] 9),
                        d\<lparr>bs_current_price := 147\<rparr>)))"
proof -
  let ?i = "DCA_initialize (\<lambda>x. x)
     (DCAStrategy_init ''BTCUSDT'' 1 1 (Some 1) (Some 50) (Some 1) (Some 1) (Some 2) None)"
  let ?xs = "[[''quantity'' \<mapsto> 1, ''price'' \<mapsto> 100], [''quantity'' \<mapsto> (1::real), ''price'' \<mapsto> 96]]"
  let ?t = "[''price'' \<mapsto> (147::real)]"
  define sg where "sg = fst (projr (DCA_on_tick (\<lambda>x. x) ?i [''price'' \<mapsto> 100] 0))"
  define base where "base = snd (projr (DCA_on_tick (\<lambda>x. x) ?i [''price'' \<mapsto> 100] 0))"
  define d where "d = snd (DCA_fills (\<lambda>x. x) base ?xs)"
  have first_tick: "DCA_on_tick (\<lambda>x. x) ?i [''price'' \<mapsto> 100] 0 = Inr (sg, base)"
    unfolding sg_def base_def by code_simp
  have fills: "DCA_fills (\<lambda>x. x) base ?xs = (None, d)"
    unfolding d_def base_def by code_simp
  have ne: "?xs \<noteq> []" by simp
  have h: "base_order_filled d \<and> tick_price ?t \<noteq> 0 \<and> total_quantity d > 0
      \<and> average_entry d \<noteq> 0
      \<and> pnl_percent (\<lambda>x. x) (tick_price ?t) (average_entry d) \<ge> take_profit_pct d"
    unfolding d_def base_def by code_simp
  have v: "tick_price ?t = 147" "total_quantity d = 2" "bs_symbol d = ''BTCUSDT''"
    "total_invested d = 196" "pnl_percent (\<lambda>x. x) 147 (average_entry d) = 50"
    unfolding d_def base_def by code_simp+
  note t = DCA_average_and_take_profit [of ?xs "\<lambda>x. x" base d ?t 9]
  from t ne fills have avg: "average_entry d = fl_div (\<lambda>x. x) (total_invested d) (total_quantity d)"
    by blast
  then have a98: "average_entry d = 98" by (simp add: v fl_div_def)
  from t h have "DCA_on_tick (\<lambda>x. x) d ?t 9
      = Inr (Some (dca_signal SELL (bs_symbol d) (tick_price ?t) (total_quantity d)
                     [Lit ''Take profit at '',
                      Num2 (pnl_percent (\<lambda>x. x) (tick_price ?t) (average_entry d)), Lit ''%'']
                     [(''pnl_percent'',
                       IndNum (pnl_percent (\<lambda>x. x) (tick_price ?t) (average_entry d)))]
                     9),
                   d\<lparr>bs_current_price := tick_price ?t\<rparr>)"
    by blast
  then have tp: "DCA_on_tick (\<lambda>x. x) d ?t 9
      = Inr (Some (dca_signal SELL ''BTCUSDT'' 147 2
                     [Lit ''Take profit at '', Num2 50, Lit ''%'']
                     [(''pnl_percent'', IndNum 50)] 9),
             d\<lparr>bs_current_price := 147\<rparr>)"
    by (simp add: v)
  show ?thesis
    by (simp only: first_tick fills tp a98 v sum.case prod.case simp_thms)
qed

text \<open>
  The take-profit tick resets nothing: after a base order at 100, fills of 1 at 100 and
  1 at 96, and the selling tick at 147, the base order is still marked as placed and the
  totals are still 2 and 196.
\<close>

theorem take_profit_without_reset_counterexample:
  "(case DCA_on_tick (\<lambda>x. x)
          (DCA_initialize (\<lambda>x. x)
             (DCAStrategy_init ''BTCUSDT'' 1 1 (Some 1) (Some 50) (Some 1) (Some 1) (Some 2) None))
          [''price'' \<mapsto> 100] 0 of
      Inl x \<Rightarrow> False
    | Inr (r0, d0) \<Rightarrow>
        (case DCA_fills (\<lambda>x. x) d0
                [[''quantity'' \<mapsto> 1, ''price'' \<mapsto> 100], [''quantity'' \<mapsto> 1, ''price'' \<mapsto> 96]] of
           (err, d) \<Rightarrow>
             (case DCA_on_tick (\<lambda>x. x) d [''price'' \<mapsto> 147] 9 of
                Inl x \<Rightarrow> False
              | Inr (r, d') \<Rightarrow>
                  map_option sig_type r = Some SELL
                  \<and> map_option sig_quantity r = Some (Some 2)
                  \<and> base_order_filled d' \<and> total_quantity d' = 2
                  \<and> total_invested d' = 196 \<and> \<not> fresh_cycle d')))"
  by code_simp

section \<open>Properties of order cancellation\<close>

text \<open>
  Claim C6. \<open>cancel_order\<close> turns an order whose status is open or partial into a
  cancelled one, sets \<open>cancelled_at\<close>, commits and emits \<open>order.cancelled\<close>; on an order
  whose status is filled, cancelled, rejected or expired it raises ValueError with the
  message \<open>Cannot cancel order with status: ...\<close> and leaves the order and the outside
  as they were.
\<close>

theorem cancel_order_transitions:
  "(status ord = OPEN \<or> status ord = PARTIAL \<longrightarrow>
      cancel_order ord now out
        = (None, ord\<lparr>status := CANCELLED, cancelled_at := Some now\<rparr>,
           out\<lparr>commits := commits out + 1,
               emitted := emitted out @
                 [\<lparr>em_type = ''order.cancelled'',
                   em_data = [(''order_id'', Some (o_id ord)),
                              (''exchange_order_id'', exchange_order_id ord)]\<rparr>]\<rparr>))
   \<and> (is_terminal (status ord) \<longrightarrow>
        cancel_order ord now out
          = (Some (ValueError [Lit ''Cannot cancel order with status: '',
                               StrV (status_value (status ord))]), ord, out))"
  by (auto simp: cancel_order_def is_open_def is_terminal_def Let_def)

theorem cancel_order_transitions_witness:
  "cancel_order
      \<lparr>o_id = ''o-1'', o_bot_id = ''b-1'', o_user_id = ''u-1'', exchange_order_id = Some ''X9'',
       o_symbol = ''BTCUSDT'', status = PARTIAL, quantity = 2, filled_quantity = 1,
       average_price = Some 100, fee = 0, filled_at = None, cancelled_at = None\<rparr>
      5 \<lparr>commits = 0, emitted = []\<rparr>
    = (None,
       \<lparr>o_id = ''o-1'', o_bot_id = ''b-1'', o_user_id = ''u-1'', exchange_order_id = Some ''X9'',
        o_symbol = ''BTCUSDT'', status = CANCELLED, quantity = 2, filled_quantity = 1,
        average_price = Some 100, fee = 0, filled_at = None, cancelled_at = Some 5\<rparr>,
       \<lparr>commits = 1,
        emitted = [\<lparr>em_type = ''order.cancelled'',
                    em_data = [(''order_id'', Some ''o-1''),
                               (''exchange_order_id'', Some ''X9'')]\<rparr>]\<rparr>)
   \<and> cancel_order
      \<lparr>o_id = ''o-2'', o_bot_id = ''b-1'', o_user_id = ''u-1'', exchange_order_id = Some ''X7'',
       o_symbol = ''BTCUSDT'', status = EXPIRED, quantity = 2, filled_quantity = 0,
       average_price = None, fee = 0, filled_at = None, cancelled_at = None\<rparr>
      5 \<lparr>commits = 0, emitted = []\<rparr>
    = (Some (ValueError [Lit ''Cannot cancel order with status: '', StrV ''expired'']),
       \<lparr>o_id = ''o-2'', o_bot_id = ''b-1'', o_user_id = ''u-1'', exchange_order_id = Some ''X7'',
        o_symbol = ''BTCUSDT'', status = EXPIRED, quantity = 2, filled_quantity = 0,
        average_price = None, fee = 0, filled_at = None, cancelled_at = None\<rparr>,
       \<lparr>commits = 0, emitted = []\<rparr>)"
  using cancel_order_transitions
    [of "\<lparr>o_id = ''o-1'', o_bot_id = ''b-1'', o_user_id = ''u-1'',
          exchange_order_id = Some ''X9'',
          o_symbol = ''BTCUSDT'', status = PARTIAL, quantity = 2, filled_quantity = 1,
          average_price = Some 100, fee = 0, filled_at = None, cancelled_at = None\<rparr>"
        5 "\<lparr>commits = 0, emitted = []\<rparr>"]
    cancel_order_transitions
    [of "\<lparr>o_id = ''o-2'', o_bot_id = ''b-1'', o_user_id = ''u-1'',
          exchange_order_id = Some ''X7'',
          o_symbol = ''BTCUSDT'', status = EXPIRED, quantity = 2, filled_quantity = 0,
          average_price = None, fee = 0, filled_at = None, cancelled_at = None\<rparr>"
        5 "\<lparr>commits = 0, emitted = []\<rparr>"]
  by (simp add: is_terminal_def)

text \<open>The exception for a filled order is a ValueError, not an InvalidOrderError.\<close>

theorem cancel_filled_order_counterexample:
  "map_option exception_name
     (fst (cancel_order
        \<lparr>o_id = ''o-3'', o_bot_id = ''b-1'', o_user_id = ''u-1'',
         exchange_order_id = Some ''X5'',
         o_symbol = ''BTCUSDT'', status = FILLED, quantity = 2, filled_quantity = 2,
         average_price = Some 100, fee = 0, filled_at = Some 4, cancelled_at = None\<rparr>
        5 \<lparr>commits = 0, emitted = []\<rparr>))
     = Some ''ValueError''
   \<and> map_option exception_name
     (fst (cancel_order
        \<lparr>o_id = ''o-3'', o_bot_id = ''b-1'', o_user_id = ''u-1'',
         exchange_order_id = Some ''X5'',
         o_symbol = ''BTCUSDT'', status = FILLED, quantity = 2, filled_quantity = 2,
         average_price = Some 100, fee = 0, filled_at = Some 4, cancelled_at = None\<rparr>
        5 \<lparr>commits = 0, emitted = []\<rparr>))
     \<noteq> Some ''InvalidOrderError''"
  by (simp add: cancel_order_def is_open_def)

section \<open>Properties of the event bus\<close>

text \<open>
  When no matching handler raises outside \<open>Exception\<close>, \<open>_handle_message\<close> calls every
  matching handler once, in order, whatever the others did, and returns normally: the
  world at the end is the world the handlers made, one after the other.
\<close>

lemma call_handlers_all:
  "list_all (\<lambda>h. never_raises_base h d) hs \<Longrightarrow>
     call_handlers hs d w = (Returned, foldl (\<lambda>w h. snd (h d w)) w hs)"
proof (induction hs arbitrary: w)
  case Nil
  show ?case by simp
next
  case (Cons h hs)
  obtain r w' where hw: "h d w = (r, w')" by (cases "h d w")
  from Cons.prems have "never_raises_base h d" by simp
  then have nb: "\<And>x. r \<noteq> RaisedBase x"
    using hw by (auto simp: never_raises_base_def dest: spec [of _ w])
  from Cons.prems have rest: "list_all (\<lambda>h. never_raises_base h d) hs" by simp
  from nb hw Cons.IH [OF rest, of w'] show ?case
    by (cases r) auto
qed

lemma dispatch_all:
  "list_all (\<lambda>h. never_raises_base h d) (matching_handlers hs chan) \<Longrightarrow>
     dispatch hs chan d w
       = (Returned, foldl (\<lambda>w h. snd (h d w)) w (matching_handlers hs chan))"
proof (induction hs arbitrary: w)
  case Nil
  show ?case by (simp add: matching_handlers_def)
next
  case (Cons ph hs)
  obtain pat hl where ph: "ph = (pat, hl)" by (cases ph)
  show ?case
  proof (cases "matches chan (''xor:'' @ pat)")
    case True
    with Cons.prems ph have a: "list_all (\<lambda>h. never_raises_base h d) hl"
      and b: "list_all (\<lambda>h. never_raises_base h d) (matching_handlers hs chan)"
      by (simp_all add: matching_handlers_def)
    from True ph call_handlers_all [OF a, of w] Cons.IH [OF b] show ?thesis
      by (simp add: matching_handlers_def)
  next
    case False
    with Cons.prems ph have b: "list_all (\<lambda>h. never_raises_base h d) (matching_handlers hs chan)"
      by (simp add: matching_handlers_def)
    from False ph Cons.IH [OF b] show ?thesis
      by (simp add: matching_handlers_def)
  qed
qed

lemma handle_message_isolation:
  "list_all (\<lambda>h. never_raises_base h d) (matching_handlers hs (channel m)) \<Longrightarrow>
     msg_data m = Decoded d \<or> (\<exists>b. msg_data m = RawBytes b \<and> json_loads b = Inr d) \<Longrightarrow>
     handle_message hs json_loads m w
       = (Returned, foldl (\<lambda>w h. snd (h d w)) w (matching_handlers hs (channel m)))"
  by (auto simp: handle_message_def dispatch_all)

text \<open>
  Claim C8. A message on \<open>xor:market.tick\<close> goes to the two handlers subscribed to
  \<open>market.*\<close>. The first raises; the second is still called and the call returns
  normally. The world, which starts empty, ends with the line of the second handler
  alone: the bus wrote no record of the exception it swallowed.
\<close>

theorem swallowed_exception_leaves_no_log:
  "handle_message
      [(''market.*'', [\<lambda>d w. (Raised ''boom'', w), \<lambda>d w. (Returned, w @ [''seen '' @ d])]),
       (''order.filled'', [\<lambda>d w. (Returned, w @ [''order '' @ d])])]
      (\<lambda>b. Inr b)
      \<lparr>channel = ''xor:market.tick'', msg_data = RawBytes ''tick-1''\<rparr>
      []
    = (Returned, [''seen tick-1''])"
  by (simp add: handle_message_def matches_def)

end
